theory Spec2Isabelle
  imports Main "HOL-Library.Word"
begin

section \<open>The contact-form coordinator of call-intellect-site\<close>

text \<open>
  The coordinator is the React component \<^verbatim>\<open>ContactFormProvider\<close> of
  \<^verbatim>\<open>contexts/ContactFormContext\<close>:
  \<^verbatim>\<open>
  export const ContactFormProvider = ({ children }) => {
    const [isOpen, setIsOpen] = useState(false)
    const [formType, setFormType] = useState('general')

    const openForm = (type = 'general') => {
      setFormType(type)
      setIsOpen(true)
    }

    const closeForm = () => setIsOpen(false)

    return (
      <ContactFormContext.Provider value={{ isOpen, formType, openForm, closeForm }}>
        {children}
        <ContactForm isOpen={isOpen} onClose={closeForm} formType={formType} />
      </ContactFormContext.Provider>
    )
  }
  \<close>
  The spec calls \<open>isOpen\<close> "isVisible", \<open>formType\<close> "intent", \<open>openForm\<close> "open"
  and \<open>closeForm\<close> "close".
\<close>

subsection \<open>JavaScript values and arguments\<close>

text \<open>
  \<open>openForm\<close> hands whatever value it is called with to \<open>setFormType\<close>, so the argument
  is a JavaScript value, not only one of the three intent strings. \<open>js_value\<close> is the
  values that are not functions: a number is its IEEE 754 bit pattern, a symbol and an
  object are references, since the coordinator never looks inside a value. Functions are
  left out on purpose. A state setter of React stores an argument that is not a function
  and calls one that is, as an updater of the previous state; every call of \<open>openForm\<close>
  in the sources passes a string literal (\<open>'general'\<close>, \<open>'demo'\<close>, \<open>'calculate'\<close> in
  \<^verbatim>\<open>Contacts\<close>), and what \<open>openForm\<close> does with a function is no part of what is proved
  here.
\<close>

datatype js_value =
    JUndefined
  | JNull
  | JBoolean bool
  | JNumber "64 word"
  | JBigInt int
  | JString string
  | JSymbol nat
  | JObject nat

text \<open>A call passes a list of arguments; a parameter with no argument is \<open>undefined\<close>.\<close>

definition argument :: "js_value list \<Rightarrow> nat \<Rightarrow> js_value" where
  "argument args i = (if i < length args then args ! i else JUndefined)"

text \<open>
  A default parameter (\<^verbatim>\<open>type = 'general'\<close>) takes its default exactly when the
  argument is \<open>undefined\<close>; \<open>null\<close> and every other value are passed through.
\<close>

definition default_parameter :: "js_value \<Rightarrow> js_value \<Rightarrow> js_value" where
  "default_parameter d a = (if a = JUndefined then d else a)"

subsection \<open>The two state hooks\<close>

text \<open>
  \<open>coordinator\<close> is what one render of the provider reads from its two \<open>useState\<close>
  hooks and hands to every consumer through the context value and the props of
  \<open>ContactForm\<close>. A setter does not change the values of the render that is running:
  it queues an update, and React applies the queued updates, in the order of the calls,
  when it renders the component again. The calls a handler makes before it returns are
  applied in the same render. \<open>pending\<close> is that queue.
\<close>

record coordinator =
  isOpen :: bool
  formType :: js_value

datatype update = SetIsOpen bool | SetFormType js_value

record provider =
  rendered :: coordinator
  pending :: "update list"

text \<open>The first render: \<^verbatim>\<open>useState(false)\<close> and \<^verbatim>\<open>useState('general')\<close>.\<close>

definition ContactFormProvider_mount :: provider where
  "ContactFormProvider_mount =
     \<lparr>rendered = \<lparr>isOpen = False, formType = JString ''general''\<rparr>, pending = []\<rparr>"

definition setIsOpen :: "bool \<Rightarrow> provider \<Rightarrow> provider" where
  "setIsOpen b p = p\<lparr>pending := pending p @ [SetIsOpen b]\<rparr>"

definition setFormType :: "js_value \<Rightarrow> provider \<Rightarrow> provider" where
  "setFormType v p = p\<lparr>pending := pending p @ [SetFormType v]\<rparr>"

text \<open>
  \<open>openForm\<close> calls \<open>setFormType\<close> first and \<open>setIsOpen\<close> second; \<open>closeForm\<close> calls
  \<open>setIsOpen\<close> only. Neither has a \<^verbatim>\<open>throw\<close> nor a call that can fail, so both are
  total functions with no error result. The values queued are not functions, so applying
  an update (\<open>reduce\<close>) stores the value and cannot fail either.
\<close>

definition openForm :: "js_value list \<Rightarrow> provider \<Rightarrow> provider" where
  "openForm args p =
     (let type = default_parameter (JString ''general'') (argument args 0)
      in setIsOpen True (setFormType type p))"

definition closeForm :: "provider \<Rightarrow> provider" where
  "closeForm p = setIsOpen False p"

fun reduce :: "coordinator \<Rightarrow> update \<Rightarrow> coordinator" where
  "reduce s (SetIsOpen b) = s\<lparr>isOpen := b\<rparr>"
| "reduce s (SetFormType v) = s\<lparr>formType := v\<rparr>"

definition render :: "provider \<Rightarrow> provider" where
  "render p = \<lparr>rendered = foldl reduce (rendered p) (pending p), pending = []\<rparr>"

subsection \<open>Calls, events and traces\<close>

datatype call = OpenForm "js_value list" | CloseForm

fun handler :: "call \<Rightarrow> provider \<Rightarrow> provider" where
  "handler (OpenForm args) p = openForm args p"
| "handler CloseForm p = closeForm p"

text \<open>An event runs one handler and React renders afterwards.\<close>

definition dispatch :: "call \<Rightarrow> provider \<Rightarrow> provider" where
  "dispatch c p = render (handler c p)"

text \<open>
  A trace is any interleaving of calls and renders: several calls may run before the next
  render. \<open>observe\<close> is what consumers see at the next render.
\<close>

datatype step = Call call | Render

fun exec :: "provider \<Rightarrow> step list \<Rightarrow> provider" where
  "exec p [] = p"
| "exec p (Call c # tr) = exec (handler c p) tr"
| "exec p (Render # tr) = exec (render p) tr"

definition observe :: "provider \<Rightarrow> coordinator" where
  "observe p = rendered (render p)"

text \<open>The calls of a trace, in order.\<close>

fun calls :: "step list \<Rightarrow> call list" where
  "calls [] = []"
| "calls (Call c # tr) = c # calls tr"
| "calls (Render # tr) = calls tr"

text \<open>
  Following the spec's words, not the code, the effect of one call alone on
  \<open>{isVisible, intent}\<close>: \<open>open(intent = general)\<close> "sets \<open>isVisible = true\<close> and
  \<open>intent = <given>\<close>", and \<open>close()\<close> "sets \<open>isVisible = false\<close>", the intent staying
  what it was.
\<close>

fun effect :: "call \<Rightarrow> coordinator \<Rightarrow> coordinator" where
  "effect (OpenForm []) s = \<lparr>isOpen = True, formType = JString ''general''\<rparr>"
| "effect (OpenForm (a # as)) s =
     \<lparr>isOpen = True, formType = (if a = JUndefined then JString ''general'' else a)\<rparr>"
| "effect CloseForm s = s\<lparr>isOpen := False\<rparr>"

text \<open>
  Following the spec's words for the intent a consumer finds after a sequence of calls:
  the argument of the most recent open, resolved against the default, or the value held
  before the sequence when it has no open.
\<close>

fun most_recent_intent :: "js_value \<Rightarrow> call list \<Rightarrow> js_value" where
  "most_recent_intent d [] = d"
| "most_recent_intent d (OpenForm args # cs) =
     most_recent_intent (default_parameter (JString ''general'') (argument args 0)) cs"
| "most_recent_intent d (CloseForm # cs) = most_recent_intent d cs"

subsection \<open>The element tree of the application\<close>

text \<open>
  JSX elements without their props: a host element (\<^verbatim>\<open><div>\<close>, \<^verbatim>\<open><main>\<close>), a
  component element, a \<^verbatim>\<open><Route path=... element=... />\<close>, and a \<^verbatim>\<open><Button>\<close>
  with the call its \<^verbatim>\<open>onClick\<close> makes. Text is no element.
\<close>

datatype element =
    Host string "element list"
  | Component string "element list"
  | Route string element
  | Button call

text \<open>What \<^verbatim>\<open>App\<close> returns.\<close>

definition App :: element where
  "App =
     Component ''HelmetProvider'' [
       Component ''Router'' [
         Component ''ContactFormProvider'' [
           Host ''div'' [
             Component ''Header'' [],
             Host ''main'' [
               Component ''Routes'' [
                 Route ''/'' (Component ''Home'' []),
                 Route ''/sales'' (Component ''Sales'' []),
                 Route ''/marketing'' (Component ''Marketing'' []),
                 Route ''/market-analysis'' (Component ''MarketAnalysis'' []),
                 Route ''/blog'' (Component ''Blog'' []),
                 Route ''/contacts'' (Component ''Contacts'' []),
                 Route ''/admin'' (Component ''AdminPanel'' []),
                 Route ''/personal-data'' (Component ''PersonalData'' [])]],
             Component ''Footer'' []]]]]"

text \<open>What \<^verbatim>\<open>ContactFormProvider\<close> returns: its children, then one \<open>ContactForm\<close>.\<close>

definition ContactFormProvider :: "element list \<Rightarrow> element" where
  "ContactFormProvider children =
     Component ''ContactFormContext.Provider'' (children @ [Component ''ContactForm'' []])"

text \<open>
  What \<^verbatim>\<open>Contacts\<close> (\<^verbatim>\<open>pages/Contacts.jsx\<close>) returns. It takes \<open>openForm\<close> from
  \<^verbatim>\<open>useContactForm()\<close>, that is from the nearest \<open>ContactFormContext.Provider\<close> above it,
  and its four buttons call it.
\<close>

definition Contacts :: element where
  "Contacts =
     Host ''div'' [
       Component ''SEOHead'' [],
       Host ''section'' [
         Host ''div'' [
           Host ''div'' [
             Host ''h1'' [],
             Host ''p'' []]]],
       Host ''section'' [
         Host ''div'' [
           Host ''div'' [
             Host ''div'' [
               Host ''h2'' [],
               Button (OpenForm [JString ''general''])],
             Host ''div'' [
               Host ''h2'' [],
               Host ''div'' [
                 Host ''div'' [
                   Component ''Phone'' [],
                   Host ''div'' [Host ''h3'' [], Host ''a'' [], Host ''p'' []]],
                 Host ''div'' [
                   Component ''MessageCircle'' [],
                   Host ''div'' [Host ''h3'' [], Host ''p'' [], Host ''p'' []]],
                 Host ''div'' [
                   Component ''Mail'' [],
                   Host ''div'' [Host ''h3'' [], Host ''a'' [], Host ''p'' []]],
                 Host ''div'' [
                   Component ''Clock'' [],
                   Host ''div'' [Host ''h3'' [], Host ''p'' [], Host ''p'' []]]],
               Host ''div'' [
                 Host ''h3'' [],
                 Host ''div'' [
                   Button (OpenForm [JString ''demo'']),
                   Button (OpenForm [JString ''general'']),
                   Button (OpenForm [JString ''calculate''])]]]]]],
       Host ''section'' [
         Host ''div'' [
           Host ''h2'' [],
           Host ''div'' [
             Host ''div'' [Host ''h3'' [], Host ''p'' []],
             Host ''div'' [Host ''h3'' [], Host ''p'' []],
             Host ''div'' [Host ''h3'' [], Host ''p'' []],
             Host ''div'' [Host ''h3'' [], Host ''p'' []]]]]]"

text \<open>
  Modelled from the spec: the sources of \<open>Header\<close>, \<open>Footer\<close>, \<open>ContactForm\<close>, the
  pages other than \<open>Contacts\<close>, \<open>SEOHead\<close> and the \<open>ui\<close> components are missing. The
  spec makes the header, the footer and the pages Trigger Sites, which "call
  \<open>open(intent)\<close>" and "never read or hold form state themselves", and the presenter "a
  single mounted form instance, rendered once at the application root", with "no per-page
  duplication". So a component without source is mounted as it stands, with its children:
  it adds no presenter and no coordinator of its own. The components of libraries
  (\<open>HelmetProvider\<close>, \<open>Router\<close>, the icons) are mounted the same way.
\<close>

definition without_source :: "string \<Rightarrow> element list \<Rightarrow> element" where
  "without_source n children = Component n children"

text \<open>
  Mounting at a location. \<open>ContactFormProvider\<close> and \<open>Contacts\<close> are called and what
  they return is mounted in their place (\<open>Contacts\<close> takes no children). \<open>Routes\<close> mounts
  the element of the route the router chooses for the location, or nothing. Which route
  that is belongs to the router library (it compares paths without regard to letter case
  or a trailing slash, and ranks the routes that match), so the choice is the parameter
  \<open>router\<close>: from the location and the routes to the index of the chosen one.
\<close>

fun weight :: "element \<Rightarrow> nat" where
  "weight (Host n cs) = 1 + sum_list (map weight cs)"
| "weight (Component n cs) =
     (if n = ''ContactFormProvider'' then 4 else if n = ''Contacts'' then 100 else 1) +
     sum_list (map weight cs)"
| "weight (Route p e) = 1 + weight e"
| "weight (Button c) = 1"

lemma weight_member: "x \<in> set cs \<Longrightarrow> weight x \<le> sum_list (map weight cs)"
  by (induction cs) auto

lemma weight_Contacts: "weight Contacts < 100"
  by (simp add: Contacts_def)

function mount :: "(string \<Rightarrow> element list \<Rightarrow> nat option) \<Rightarrow> string \<Rightarrow> element \<Rightarrow> element list" where
  "mount router loc (Host n cs) = [Host n (concat (map (mount router loc) cs))]"
| "mount router loc (Button c) = [Button c]"
| "mount router loc (Route p e) = mount router loc e"
| "mount router loc (Component n cs) =
     (if n = ''ContactFormProvider'' then
        [Component n (mount router loc (ContactFormProvider cs))]
      else if n = ''Contacts'' then
        [Component n (mount router loc Contacts)]
      else if n = ''Routes'' then
        [Component n
          (case router loc cs of
             None \<Rightarrow> []
           | Some i \<Rightarrow> if i < length cs then mount router loc (cs ! i) else [])]
      else
        [without_source n (concat (map (mount router loc) cs))])"
  by pat_completeness auto
termination
proof (relation "measure (\<lambda>(router, loc, e). weight e)")
  show "wf (measure (\<lambda>(router, loc, e). weight e))" by simp
next
  fix router :: "string \<Rightarrow> element list \<Rightarrow> nat option" and loc n cs
  show "((router, loc, Contacts), (router, loc, Component n cs)) \<in> measure (\<lambda>(router, loc, e). weight e)"
    if "n = ''Contacts''"
    using weight_Contacts that by simp
qed (auto simp: ContactFormProvider_def less_Suc_eq_le dest: weight_member intro: weight_member nth_mem)

fun name_of :: "element \<Rightarrow> string" where
  "name_of (Host n cs) = n"
| "name_of (Component n cs) = n"
| "name_of (Route p e) = ''Route''"
| "name_of (Button c) = ''Button''"

fun children_of :: "element \<Rightarrow> element list" where
  "children_of (Host n cs) = cs"
| "children_of (Component n cs) = cs"
| "children_of (Route p e) = [e]"
| "children_of (Button c) = []"

text \<open>
  The positions (child indices from the root) of the elements with a given name, and the
  names met along a position. React keeps an instance and its state for as long as an
  element of the same type stays at the same position.
\<close>

fun positions :: "string \<Rightarrow> element \<Rightarrow> nat list list"
  and positions_from :: "string \<Rightarrow> nat \<Rightarrow> element list \<Rightarrow> nat list list" where
  "positions n (Host m cs) = (if m = n then [[]] else []) @ positions_from n 0 cs"
| "positions n (Component m cs) = (if m = n then [[]] else []) @ positions_from n 0 cs"
| "positions n (Route p e) = positions_from n 0 [e]"
| "positions n (Button c) = (if ''Button'' = n then [[]] else [])"
| "positions_from n i [] = []"
| "positions_from n i (c # cs) = map ((#) i) (positions n c) @ positions_from n (Suc i) cs"

fun names_along :: "nat list \<Rightarrow> element list \<Rightarrow> string list" where
  "names_along [] es = []"
| "names_along (i # is) es =
     (if i < length es then name_of (es ! i) # names_along is (children_of (es ! i)) else [])"

text \<open>The calls of the buttons of a tree, in document order.\<close>

fun triggers :: "element \<Rightarrow> call list" where
  "triggers (Host n cs) = concat (map triggers cs)"
| "triggers (Component n cs) = concat (map triggers cs)"
| "triggers (Route p e) = triggers e"
| "triggers (Button c) = [c]"

text \<open>One router: the first route whose path is the location, letter for letter.\<close>

fun first_match :: "string \<Rightarrow> element list \<Rightarrow> nat option" where
  "first_match loc [] = None"
| "first_match loc (Route p e # cs) =
     (if p = loc then Some 0 else map_option Suc (first_match loc cs))"
| "first_match loc (c # cs) = map_option Suc (first_match loc cs)"

section \<open>Properties of the coordinator\<close>

subsection \<open>Auxiliary facts\<close>

lemmas coordinator_defs =
  dispatch_def observe_def render_def openForm_def closeForm_def setIsOpen_def
  setFormType_def default_parameter_def argument_def Let_def

lemma observe_openForm: "observe (openForm args p) = effect (OpenForm args) (observe p)"
  by (cases args) (simp_all add: coordinator_defs)

lemma observe_handler: "observe (handler c p) = effect c (observe p)"
  by (cases c) (simp_all add: observe_openForm, simp add: coordinator_defs)

lemma observe_render: "observe (render p) = observe p"
  by (simp add: observe_def render_def)

lemma observe_exec: "observe (exec p tr) = foldl (\<lambda>s c. effect c s) (observe p) (calls tr)"
  by (induction p tr rule: exec.induct) (simp_all add: observe_handler observe_render)

lemma exec_append: "exec p (tr @ tr') = exec (exec p tr) tr'"
  by (induction p tr rule: exec.induct) simp_all

lemma observe_closeForm: "formType (observe (closeForm p)) = formType (observe p)"
  by (simp add: coordinator_defs)

lemma effect_formType: "formType (effect c s) = most_recent_intent (formType s) [c]"
  by (induction c s rule: effect.induct) (simp_all add: default_parameter_def argument_def)

lemma most_recent_intent_fold:
  "formType (foldl (\<lambda>s c. effect c s) s cs) = most_recent_intent (formType s) cs"
proof (induction cs arbitrary: s)
  case Nil
  show ?case by simp
next
  case (Cons c cs)
  have "formType (foldl (\<lambda>s c. effect c s) s (c # cs)) =
        most_recent_intent (formType (effect c s)) cs"
    using Cons.IH [of "effect c s"] by simp
  also have "formType (effect c s) = most_recent_intent (formType s) [c]"
    by (rule effect_formType)
  finally show ?case by (cases c) simp_all
qed

lemma most_recent_intent_calls:
  "formType (observe (exec p (map Call cs))) = most_recent_intent (formType (observe p)) cs"
proof (induction cs arbitrary: p)
  case Nil
  show ?case by simp
next
  case (Cons c cs)
  have "formType (observe (exec p (map Call (c # cs)))) =
        most_recent_intent (formType (observe (handler c p))) cs"
    using Cons.IH [of "handler c p"] by simp
  also have "formType (observe (handler c p)) = most_recent_intent (formType (observe p)) [c]"
    by (simp only: observe_handler effect_formType)
  finally show ?case by (cases c) simp_all
qed

subsection \<open>Opening\<close>

text \<open>
  Claim C1, as stated: for every value \<open>v\<close> outside the closed set \<open>{general, demo,
  calculate}\<close>, \<open>open(v)\<close> leaves \<open>intent === 'general'\<close> and never throws.
  The code does not do that: \<open>openForm\<close> has no check of its argument, and the default
  parameter replaces \<open>undefined\<close> only. \<open>openForm('foo')\<close> on the freshly mounted
  provider leaves \<open>formType === 'foo'\<close>.
\<close>

theorem openForm_unknown_intent_kept:
  "JString ''foo'' \<notin> {JString ''general'', JString ''demo'', JString ''calculate''} \<and>
   formType (rendered (dispatch (OpenForm [JString ''foo'']) ContactFormProvider_mount)) =
     JString ''foo'' \<and>
   formType (rendered (dispatch (OpenForm [JString ''foo'']) ContactFormProvider_mount)) \<noteq>
     JString ''general''"
  by (simp add: ContactFormProvider_mount_def coordinator_defs)

text \<open>
  Claim C1, amended: for every argument \<open>v\<close> that is not a function, \<open>open(v)\<close> never
  throws and never validates \<open>v\<close>. From every prior state it shows the form, and the
  intent is \<open>'general'\<close> when \<open>v\<close> is \<open>undefined\<close> and \<open>v\<close> itself otherwise, inside
  the closed set or not. A function argument is left out, neither promised nor denied:
  React's setter would run it as an updater. (That the call never throws is the totality
  of \<open>openForm\<close>: the source has no failing path.)
\<close>

theorem openForm_no_validation:
  "rendered (dispatch (OpenForm [v]) p) =
     \<lparr>isOpen = True, formType = (if v = JUndefined then JString ''general'' else v)\<rparr>"
  by (simp add: coordinator_defs)

text \<open>
  Claim C2: for every intent \<open>i\<close> and every prior state, \<open>open(i)\<close> sets \<open>isVisible\<close> to
  true and \<open>intent\<close> to \<open>i\<close> together: no consumer observes a state in which only one of
  the two fields has been updated by the call. The handler changes nothing a consumer
  has been given; it queues the two updates, \<open>setFormType\<close> then \<open>setIsOpen\<close>, behind
  whatever was queued before; and the next render shows both fields updated, whatever
  the prior state and queue were.
\<close>

theorem openForm_atomic:
  "rendered (openForm [JString i] p) = rendered p \<and>
   pending (openForm [JString i] p) = pending p @ [SetFormType (JString i), SetIsOpen True] \<and>
   rendered (render (openForm [JString i] p)) = \<lparr>isOpen = True, formType = JString i\<rparr>"
  by (simp add: coordinator_defs)

text \<open>
  Claim C3: opening with a second intent while the form is open with a first one, with no
  close in between, leaves the second intent and the form visible, whether or not a
  render happened between the two calls; in particular \<open>open('demo')\<close> then
  \<open>open('calculate')\<close> gives \<open>intent === 'calculate'\<close> and \<open>isVisible === true\<close>.
\<close>

theorem openForm_last_call_wins:
  "rendered (dispatch (OpenForm [JString b]) (dispatch (OpenForm [JString a]) p)) =
     \<lparr>isOpen = True, formType = JString b\<rparr> \<and>
   rendered (render (openForm [JString b] (openForm [JString a] p))) =
     \<lparr>isOpen = True, formType = JString b\<rparr> \<and>
   rendered (dispatch (OpenForm [JString ''calculate''])
      (dispatch (OpenForm [JString ''demo'']) p)) =
     \<lparr>isOpen = True, formType = JString ''calculate''\<rparr>"
  by (simp add: coordinator_defs)

text \<open>
  Claim C4: for every finite sequence of open and close calls, from any state and with
  renders anywhere between the calls, what is observed after the last call is the effect
  of that call alone, as the spec states it (\<open>effect\<close>), on what would have been observed
  before it: an open leaves the form visible with the given intent, whatever came
  before, and a close leaves it hidden with the intent it had. Hence what is observed after
  the whole sequence is the calls' effects applied in order, with nothing else merged in.
\<close>

theorem last_call_alone:
  "observe (exec p (tr @ [Call c])) = effect c (observe (exec p tr)) \<and>
   observe (exec p tr) = foldl (\<lambda>s c. effect c s) (observe p) (calls tr)"
proof -
  have "observe (exec p (tr @ [Call c])) = effect c (observe (exec p tr))"
    by (simp add: exec_append observe_handler)
  then show ?thesis
    by (simp only: observe_exec simp_thms)
qed

text \<open>
  Claim C5: \<open>open()\<close> with no argument gives \<open>intent === 'general'\<close> and
  \<open>isVisible === true\<close>, for every prior state.
\<close>

theorem openForm_default:
  "rendered (dispatch (OpenForm []) p) = \<lparr>isOpen = True, formType = JString ''general''\<rparr>"
  by (simp add: coordinator_defs)

subsection \<open>Closing\<close>

text \<open>
  Claim C6: for every prior state, \<open>close()\<close> sets \<open>isVisible\<close> to false. (The claim
  leaves the intent after a close unspecified; C10 says what the code leaves there.)
\<close>

theorem closeForm_hides:
  "isOpen (rendered (dispatch CloseForm p)) = False \<and> isOpen (observe (closeForm p)) = False"
  by (simp add: coordinator_defs)

text \<open>
  Claim C7: \<open>close()\<close> on a closed form changes nothing of the coordinator state and
  raises no error, and a close after a close is a single close. With nothing queued the
  provider is left as it was; with updates queued that already close the form, the close
  adds nothing to what the next render shows.
\<close>

theorem closeForm_closed_noop:
  "(isOpen (rendered p) = False \<and> pending p = [] \<longrightarrow> dispatch CloseForm p = p) \<and>
   (isOpen (observe p) = False \<longrightarrow> dispatch CloseForm p = render p) \<and>
   dispatch CloseForm (dispatch CloseForm p) = dispatch CloseForm p"
  by (simp add: coordinator_defs)

theorem closeForm_closed_noop_witness:
  "isOpen (rendered ContactFormProvider_mount) = False \<and>
   pending ContactFormProvider_mount = [] \<and>
   dispatch CloseForm ContactFormProvider_mount = ContactFormProvider_mount"
  using closeForm_closed_noop [of ContactFormProvider_mount]
  by (simp add: ContactFormProvider_mount_def)

text \<open>
  Claim C10: \<open>close()\<close> changes \<open>isVisible\<close> only. It queues one update, of \<open>isOpen\<close>;
  the intent observed after it is the intent that would have been observed without it;
  and after any sequence of calls from application start followed by a close, with or
  without renders between the calls, the intent is the one set by the most recent open,
  or \<open>'general'\<close> when there was none.
\<close>

theorem closeForm_keeps_formType:
  "pending (closeForm p) = pending p @ [SetIsOpen False] \<and>
   formType (observe (closeForm p)) = formType (observe p) \<and>
   formType (rendered (dispatch CloseForm p)) = formType (observe p) \<and>
   formType (observe (exec ContactFormProvider_mount (map Call cs @ [Call CloseForm]))) =
     most_recent_intent (JString ''general'') cs \<and>
   formType (observe (exec ContactFormProvider_mount (tr @ [Call CloseForm]))) =
     most_recent_intent (JString ''general'') (calls tr)"
proof -
  have start: "formType (observe ContactFormProvider_mount) = JString ''general''"
    by (simp add: ContactFormProvider_mount_def observe_def render_def)
  have "formType (observe (exec ContactFormProvider_mount (tr @ [Call CloseForm]))) =
        formType (observe (exec ContactFormProvider_mount tr))"
    by (simp add: exec_append observe_closeForm)
  also have "\<dots> = most_recent_intent (JString ''general'') (calls tr)"
    by (simp only: observe_exec most_recent_intent_fold start)
  finally have traces:
    "formType (observe (exec ContactFormProvider_mount (tr @ [Call CloseForm]))) =
     most_recent_intent (JString ''general'') (calls tr)" .
  have "formType (observe (exec ContactFormProvider_mount (map Call cs @ [Call CloseForm]))) =
        formType (observe (exec ContactFormProvider_mount (map Call cs)))"
    by (simp add: exec_append observe_closeForm)
  also have "\<dots> = most_recent_intent (formType (observe ContactFormProvider_mount)) cs"
    by (rule most_recent_intent_calls)
  also have "formType (observe ContactFormProvider_mount) = JString ''general''"
    by (rule start)
  finally show ?thesis using traces by (simp add: coordinator_defs)
qed

subsection \<open>Application start\<close>

text \<open>
  Claim C9: at application start, before any open or close, \<open>isVisible === false\<close> and
  \<open>intent === 'general'\<close>, and nothing is queued.
\<close>

theorem ContactFormProvider_initial_state:
  "rendered ContactFormProvider_mount = \<lparr>isOpen = False, formType = JString ''general''\<rparr> \<and>
   pending ContactFormProvider_mount = [] \<and>
   observe ContactFormProvider_mount = \<lparr>isOpen = False, formType = JString ''general''\<rparr>"
  by (simp add: ContactFormProvider_mount_def observe_def render_def)

section \<open>Properties of the mounted tree\<close>

subsection \<open>Auxiliary facts\<close>

lemma mount_Contacts: "mount router loc Contacts = [Contacts]"
  by (simp add: Contacts_def without_source_def)

lemma mount_provider_tree:
  "mount router loc
     (Component ''HelmetProvider'' [Component ''Router'' [Component ''ContactFormProvider'' [shell]]]) =
   [Component ''HelmetProvider''
     [Component ''Router''
       [Component ''ContactFormProvider''
         [Component ''ContactFormContext.Provider''
           (mount router loc shell @ [Component ''ContactForm'' []])]]]]"
  by (simp add: ContactFormProvider_def without_source_def)

lemma mount_shell:
  "mount router loc
     (Host ''div'' [Component ''Header'' [], Host ''main'' [Component ''Routes'' rs],
        Component ''Footer'' []]) =
   [Host ''div''
     [Component ''Header'' [],
      Host ''main''
        [Component ''Routes''
          (case router loc rs of
             None \<Rightarrow> []
           | Some i \<Rightarrow> if i < length rs then mount router loc (rs ! i) else [])],
      Component ''Footer'' []]]"
  by (simp add: without_source_def)

lemma routed_page:
  fixes router :: "string \<Rightarrow> element list \<Rightarrow> nat option"
  defines "rs \<equiv> [Route ''/'' (Component ''Home'' []),
              Route ''/sales'' (Component ''Sales'' []),
              Route ''/marketing'' (Component ''Marketing'' []),
              Route ''/market-analysis'' (Component ''MarketAnalysis'' []),
              Route ''/blog'' (Component ''Blog'' []),
              Route ''/contacts'' (Component ''Contacts'' []),
              Route ''/admin'' (Component ''AdminPanel'' []),
              Route ''/personal-data'' (Component ''PersonalData'' [])]"
  shows "(case router loc rs of
            None \<Rightarrow> []
          | Some i \<Rightarrow> if i < length rs then mount router loc (rs ! i) else [])
         \<in> {[], [Component ''Home'' []], [Component ''Sales'' []], [Component ''Marketing'' []],
              [Component ''MarketAnalysis'' []], [Component ''Blog'' []],
              [Component ''Contacts'' [Contacts]], [Component ''AdminPanel'' []],
              [Component ''PersonalData'' []]}"
proof (cases "router loc rs")
  case None
  then show ?thesis by simp
next
  case (Some i)
  show ?thesis
  proof (cases "i < 8")
    case True
    then have "i = 0 \<or> i = 1 \<or> i = 2 \<or> i = 3 \<or> i = 4 \<or> i = 5 \<or> i = 6 \<or> i = 7"
      by arith
    then show ?thesis
      unfolding Some by (elim disjE) (simp_all add: rs_def mount_Contacts without_source_def)
  next
    case False
    then show ?thesis unfolding Some by (simp add: rs_def)
  qed
qed

subsection \<open>One presenter, one coordinator\<close>

text \<open>
  Claim C8: exactly one \<open>ContactForm\<close> is mounted, at the application root and outside
  the routed page content, so it persists across navigation, and all trigger sites share
  the one coordinator. Whatever route the router chooses, at every location: the tree has
  one \<open>ContactForm\<close>, one \<open>ContactFormProvider\<close> and one context provider, each at a
  position that does not depend on the location; the ancestors of the \<open>ContactForm\<close> are
  the two outer providers and the coordinator, with no \<open>Routes\<close> among them; the header,
  the routed pages and the footer lie below the coordinator's context provider; and so
  does every button that calls \<open>openForm\<close>.
\<close>

theorem single_presenter:
  "positions_from ''ContactForm'' 0 (mount router loc App) = [[0, 0, 0, 0, 1]] \<and>
   positions_from ''ContactFormProvider'' 0 (mount router loc App) = [[0, 0, 0]] \<and>
   positions_from ''ContactFormContext.Provider'' 0 (mount router loc App) = [[0, 0, 0, 0]] \<and>
   names_along [0, 0, 0, 0, 1] (mount router loc App) =
     [''HelmetProvider'', ''Router'', ''ContactFormProvider'',
      ''ContactFormContext.Provider'', ''ContactForm''] \<and>
   names_along [0, 0, 0, 0, 0, 0] (mount router loc App) =
     [''HelmetProvider'', ''Router'', ''ContactFormProvider'',
      ''ContactFormContext.Provider'', ''div'', ''Header''] \<and>
   names_along [0, 0, 0, 0, 0, 1, 0] (mount router loc App) =
     [''HelmetProvider'', ''Router'', ''ContactFormProvider'',
      ''ContactFormContext.Provider'', ''div'', ''main'', ''Routes''] \<and>
   names_along [0, 0, 0, 0, 0, 2] (mount router loc App) =
     [''HelmetProvider'', ''Router'', ''ContactFormProvider'',
      ''ContactFormContext.Provider'', ''div'', ''Footer''] \<and>
   list_all (\<lambda>pos. take 4 pos = [0, 0, 0, 0])
     (positions_from ''Button'' 0 (mount router loc App))"
proof -
  let ?rs = "[Route ''/'' (Component ''Home'' []),
              Route ''/sales'' (Component ''Sales'' []),
              Route ''/marketing'' (Component ''Marketing'' []),
              Route ''/market-analysis'' (Component ''MarketAnalysis'' []),
              Route ''/blog'' (Component ''Blog'' []),
              Route ''/contacts'' (Component ''Contacts'' []),
              Route ''/admin'' (Component ''AdminPanel'' []),
              Route ''/personal-data'' (Component ''PersonalData'' [])]"
  define pages where "pages =
    (case router loc ?rs of
       None \<Rightarrow> []
     | Some i \<Rightarrow> if i < length ?rs then mount router loc (?rs ! i) else [])"
  have M: "mount router loc App =
    [Component ''HelmetProvider''
      [Component ''Router''
        [Component ''ContactFormProvider''
          [Component ''ContactFormContext.Provider''
            ([Host ''div''
               [Component ''Header'' [],
                Host ''main'' [Component ''Routes'' pages],
                Component ''Footer'' []]] @
             [Component ''ContactForm'' []])]]]]"
    unfolding App_def mount_provider_tree mount_shell pages_def ..
  have pages: "pages \<in> {[], [Component ''Home'' []], [Component ''Sales'' []],
      [Component ''Marketing'' []], [Component ''MarketAnalysis'' []], [Component ''Blog'' []],
      [Component ''Contacts'' [Contacts]], [Component ''AdminPanel'' []],
      [Component ''PersonalData'' []]}"
    unfolding pages_def by (rule routed_page)
  have pf: "positions_from ''ContactForm'' j pages = []" for j
    using pages by (auto simp: Contacts_def)
  have pp: "positions_from ''ContactFormProvider'' j pages = []" for j
    using pages by (auto simp: Contacts_def)
  have pc: "positions_from ''ContactFormContext.Provider'' j pages = []" for j
    using pages by (auto simp: Contacts_def)
  have pb: "list_all (\<lambda>pos. take 4 pos = [0, 0, 0, 0])
      (map ((#) 0 \<circ> (#) 0 \<circ> (#) 0 \<circ> (#) 0 \<circ> (#) 0 \<circ> (#) 1 \<circ> (#) 0)
         (positions_from ''Button'' 0 pages))"
    by (simp add: list_all_iff)
  have 1: "positions_from ''ContactForm'' 0 (mount router loc App) = [[0, 0, 0, 0, 1]]"
    unfolding M by (simp add: pf)
  have 2: "positions_from ''ContactFormProvider'' 0 (mount router loc App) = [[0, 0, 0]]"
    unfolding M by (simp add: pp)
  have 3: "positions_from ''ContactFormContext.Provider'' 0 (mount router loc App) =
      [[0, 0, 0, 0]]"
    unfolding M by (simp add: pc)
  have 4: "names_along [0, 0, 0, 0, 1] (mount router loc App) =
           [''HelmetProvider'', ''Router'', ''ContactFormProvider'',
            ''ContactFormContext.Provider'', ''ContactForm'']"
    unfolding M by simp
  have 5: "names_along [0, 0, 0, 0, 0, 0] (mount router loc App) =
           [''HelmetProvider'', ''Router'', ''ContactFormProvider'',
            ''ContactFormContext.Provider'', ''div'', ''Header'']"
    unfolding M by simp
  have 6: "names_along [0, 0, 0, 0, 0, 1, 0] (mount router loc App) =
           [''HelmetProvider'', ''Router'', ''ContactFormProvider'',
            ''ContactFormContext.Provider'', ''div'', ''main'', ''Routes'']"
    unfolding M by simp
  have 7: "names_along [0, 0, 0, 0, 0, 2] (mount router loc App) =
           [''HelmetProvider'', ''Router'', ''ContactFormProvider'',
            ''ContactFormContext.Provider'', ''div'', ''Footer'']"
    unfolding M by simp
  have 8: "list_all (\<lambda>pos. take 4 pos = [0, 0, 0, 0])
     (positions_from ''Button'' 0 (mount router loc App))"
    unfolding M using pb by (simp add: comp_def)
  from 1 2 3 4 5 6 7 8 show ?thesis by blast
qed

text \<open>
  At the location \<open>/contacts\<close>, with the router that compares letter for letter, the four
  buttons of \<open>Contacts\<close> are mounted, below the context provider, and they call
  \<open>openForm\<close> with \<open>'general'\<close>, \<open>'demo'\<close>, \<open>'general'\<close> and \<open>'calculate'\<close>.
\<close>

theorem single_presenter_witness:
  "positions_from ''Button'' 0 (mount first_match ''/contacts'' App) =
     [[0, 0, 0, 0, 0, 1, 0, 0, 0, 2, 0, 0, 0, 1],
      [0, 0, 0, 0, 0, 1, 0, 0, 0, 2, 0, 0, 1, 2, 1, 0],
      [0, 0, 0, 0, 0, 1, 0, 0, 0, 2, 0, 0, 1, 2, 1, 1],
      [0, 0, 0, 0, 0, 1, 0, 0, 0, 2, 0, 0, 1, 2, 1, 2]] \<and>
   concat (map triggers (mount first_match ''/contacts'' App)) =
     [OpenForm [JString ''general''], OpenForm [JString ''demo''],
      OpenForm [JString ''general''], OpenForm [JString ''calculate'']] \<and>
   positions_from ''ContactForm'' 0 (mount first_match ''/contacts'' App) = [[0, 0, 0, 0, 1]] \<and>
   list_all (\<lambda>pos. take 4 pos = [0, 0, 0, 0])
     (positions_from ''Button'' 0 (mount first_match ''/contacts'' App))"
proof -
  have "positions_from ''Button'' 0 (mount first_match ''/contacts'' App) =
     [[0, 0, 0, 0, 0, 1, 0, 0, 0, 2, 0, 0, 0, 1],
      [0, 0, 0, 0, 0, 1, 0, 0, 0, 2, 0, 0, 1, 2, 1, 0],
      [0, 0, 0, 0, 0, 1, 0, 0, 0, 2, 0, 0, 1, 2, 1, 1],
      [0, 0, 0, 0, 0, 1, 0, 0, 0, 2, 0, 0, 1, 2, 1, 2]]"
    by (simp add: App_def ContactFormProvider_def Contacts_def without_source_def)
  moreover have "concat (map triggers (mount first_match ''/contacts'' App)) =
     [OpenForm [JString ''general''], OpenForm [JString ''demo''],
      OpenForm [JString ''general''], OpenForm [JString ''calculate'']]"
    by (simp add: App_def ContactFormProvider_def Contacts_def without_source_def)
  ultimately show ?thesis
    using single_presenter [of first_match "''/contacts''"] by simp
qed

end
